theory Spec2Isabelle
  imports Main "HOL-Library.Char_ord" "HOL-Library.List_Lexorder" "HOL-Library.Multiset"
begin

section \<open>Python strings and exceptions\<close>

text \<open>
  A Python \<open>str\<close> is represented by the bytes of its UTF-8 encoding, as a \<open>string\<close>.
  Every character the code searches for, splits at or compares with is ASCII, and UTF-8
  keeps prefixes, ASCII positions and the code point order, so \<open>startswith\<close>,
  \<open>split\<close>, \<open>find\<close>, \<open>replace\<close> and \<open>sorted\<close> read the same on the bytes.

  The exceptions that reach the code of \<open>oauth_helper.py\<close> are values.
\<close>

datatype pyerr =
    KeyError string
  | ValueError string
  | IndexError
  | Exception string

definition ord :: "char \<Rightarrow> nat" where
  "ord c = of_char c"

definition isascii :: "char \<Rightarrow> bool" where
  "isascii c = (ord c < 128)"

definition isupper :: "char \<Rightarrow> bool" where
  "isupper c = (65 \<le> ord c \<and> ord c \<le> 90)"

definition isalpha :: "char \<Rightarrow> bool" where
  "isalpha c = ((65 \<le> ord c \<and> ord c \<le> 90) \<or> (97 \<le> ord c \<and> ord c \<le> 122))"

definition isdigit :: "char \<Rightarrow> bool" where
  "isdigit c = (48 \<le> ord c \<and> ord c \<le> 57)"

text \<open>
  \<open>s.lower()\<close> for a string \<open>s\<close> of ASCII characters only; on other strings
  \<open>str.lower\<close> needs the case mapping of Unicode, a parameter below.
\<close>

definition ascii_lower_chr :: "char \<Rightarrow> char" where
  "ascii_lower_chr c = (if isupper c then char_of (ord c + 32) else c)"

definition ascii_lower :: "string \<Rightarrow> string" where
  "ascii_lower s = map ascii_lower_chr s"

definition startswith :: "string \<Rightarrow> string \<Rightarrow> bool" where
  "startswith s p = (take (length p) s = p)"

text \<open>\<open>s.split(c)\<close> for a one-character separator: never an empty list.\<close>

fun split_chr :: "char \<Rightarrow> string \<Rightarrow> string list" where
  "split_chr c [] = [[]]"
| "split_chr c (x # xs) =
     (if x = c then [] # split_chr c xs
      else (case split_chr c xs of
              [] \<Rightarrow> [[x]]
            | w # ws \<Rightarrow> (x # w) # ws))"

text \<open>\<open>s.partition(c)\<close>: the part before the first \<open>c\<close>, whether there is one, the part after it.\<close>

definition partition_chr :: "char \<Rightarrow> string \<Rightarrow> string \<times> bool \<times> string" where
  "partition_chr c s =
     (takeWhile (\<lambda>x. x \<noteq> c) s, c \<in> set s, drop 1 (dropWhile (\<lambda>x. x \<noteq> c) s))"

definition replace_chr :: "char \<Rightarrow> char \<Rightarrow> string \<Rightarrow> string" where
  "replace_chr a b s = map (\<lambda>x. if x = a then b else x) s"

section \<open>urllib.parse\<close>

text \<open>
  \<open>urlparse\<close> and \<open>parse_qs\<close> are the standard library's (CPython 3.11,
  \<open>Lib/urllib/parse.py\<close>), called with their default arguments. Two of the checks of
  \<open>urlsplit\<close> consult tables outside this file and are parameters: the address parser
  of \<open>ipaddress\<close> and the NFKC normal form of \<open>unicodedata\<close>. So is \<open>str.lower\<close>,
  which \<open>launch_browser\<close> calls on the country code: its case mapping is the Unicode
  table of the interpreter.
\<close>

datatype ip_version = IPv4Address | IPv6Address

record pylib =
  ip_address :: "string \<Rightarrow> pyerr + ip_version"
  nfkc_normalize :: "string \<Rightarrow> string"
  str_lower :: "string \<Rightarrow> string"

record SplitResult =
  sr_scheme :: string
  sr_netloc :: string
  sr_path :: string
  sr_query :: string
  sr_fragment :: string

record ParseResult =
  scheme :: string
  netloc :: string
  path :: string
  params :: string
  query :: string
  fragment :: string

definition uses_params :: "string list" where
  "uses_params = ['''', ''ftp'', ''hdl'', ''prospero'', ''http'', ''imap'',
                  ''https'', ''shttp'', ''rtsp'', ''rtsps'', ''rtspu'', ''sip'',
                  ''sips'', ''mms'', ''sftp'', ''tel'']"

definition scheme_chars :: string where
  "scheme_chars = ''abcdefghijklmnopqrstuvwxyzABCDEFGHIJKLMNOPQRSTUVWXYZ0123456789+-.''"

definition WHATWG_C0_CONTROL_OR_SPACE :: "char \<Rightarrow> bool" where
  "WHATWG_C0_CONTROL_OR_SPACE c = (ord c \<le> 32)"

definition UNSAFE_URL_BYTES_TO_REMOVE :: string where
  "UNSAFE_URL_BYTES_TO_REMOVE = [char_of (9::nat), char_of (13::nat), char_of (10::nat)]"

definition is_hexdig :: "char \<Rightarrow> bool" where
  "is_hexdig c = (c \<in> set ''0123456789ABCDEFabcdef'')"

definition splitnetloc :: "string \<Rightarrow> nat \<Rightarrow> string \<times> string" where
  "splitnetloc url start =
     (let delim = start + length (takeWhile (\<lambda>c. c \<notin> set ''/?#'') (drop start url))
      in (take (delim - start) (drop start url), drop delim url))"

definition checknetloc :: "pylib \<Rightarrow> string \<Rightarrow> pyerr + unit" where
  "checknetloc lib nl =
     (if nl = [] \<or> (\<forall>c \<in> set nl. isascii c) then Inr ()
      else
        (let n = filter (\<lambda>c. c \<notin> set ''@:#?'') nl;
             netloc2 = nfkc_normalize lib n
         in if n = netloc2 then Inr ()
            else if (\<exists>c \<in> set ''/?#@:''. c \<in> set netloc2)
              then Inl (ValueError (''netloc '' @ [CHR 0x27] @ nl @ [CHR 0x27]
                     @ '' contains invalid characters under NFKC normalization''))
            else Inr ()))"

text \<open>The pattern \<open>\Av[a-fA-F0-9]+\..+\Z\<close>, on a host that holds no line break.\<close>

definition ipvfuture_match :: "string \<Rightarrow> bool" where
  "ipvfuture_match h =
     (case h of
        [] \<Rightarrow> False
      | v # rest \<Rightarrow>
          v = CHR ''v'' \<and> takeWhile is_hexdig rest \<noteq> []
          \<and> take 1 (dropWhile is_hexdig rest) = ''.''
          \<and> 2 \<le> length (dropWhile is_hexdig rest))"

definition check_bracketed_host :: "pylib \<Rightarrow> string \<Rightarrow> pyerr + unit" where
  "check_bracketed_host lib hostname =
     (if startswith hostname ''v'' then
        (if \<not> ipvfuture_match hostname then Inl (ValueError ''IPvFuture address is invalid'')
         else Inr ())
      else
        (case ip_address lib hostname of
           Inl e \<Rightarrow> Inl e
         | Inr IPv4Address \<Rightarrow> Inl (ValueError ''An IPv4 address cannot be in brackets'')
         | Inr IPv6Address \<Rightarrow> Inr ()))"

text \<open>
  The end of \<open>urlsplit\<close>: the fragment, then the query, then the check of the netloc.
  (In \<open>urlsplit\<close> below, \<open>lower\<close> is called on characters of \<open>scheme_chars\<close>, all
  of them ASCII.)
\<close>

definition urlsplit_rest :: "pylib \<Rightarrow> string \<Rightarrow> string \<Rightarrow> string \<Rightarrow> pyerr + SplitResult" where
  "urlsplit_rest lib sch nl url =
     (let (url1, has_frag, frag) = partition_chr (CHR ''#'') url;
          (url2, has_query, qry) = partition_chr (CHR ''?'') url1
      in (case checknetloc lib nl of
            Inl e \<Rightarrow> Inl e
          | Inr _ \<Rightarrow> Inr \<lparr>sr_scheme = sch, sr_netloc = nl, sr_path = url2,
                          sr_query = qry, sr_fragment = frag\<rparr>))"

definition urlsplit :: "pylib \<Rightarrow> string \<Rightarrow> pyerr + SplitResult" where
  "urlsplit lib url0 =
     (let url1 = dropWhile WHATWG_C0_CONTROL_OR_SPACE url0;
          url2 = filter (\<lambda>c. c \<notin> set UNSAFE_URL_BYTES_TO_REMOVE) url1;
          i = length (takeWhile (\<lambda>c. c \<noteq> CHR '':'') url2);
          found = (CHR '':'' \<in> set url2 \<and> 0 < i \<and> isascii (hd url2) \<and> isalpha (hd url2)
                   \<and> (\<forall>c \<in> set (take i url2). c \<in> set scheme_chars));
          sch = (if found then ascii_lower (take i url2) else []);
          url3 = (if found then drop (i + 1) url2 else url2)
      in if take 2 url3 = ''//'' then
           (let (nl, url4) = splitnetloc url3 2;
                lb = (CHR ''['' \<in> set nl);
                rb = (CHR '']'' \<in> set nl)
            in if (lb \<and> \<not> rb) \<or> (rb \<and> \<not> lb) then Inl (ValueError ''Invalid IPv6 URL'')
               else
                 (case (if lb \<and> rb
                        then check_bracketed_host lib
                               (fst (partition_chr (CHR '']'')
                                  (snd (snd (partition_chr (CHR ''['') nl)))))
                        else Inr ()) of
                    Inl e \<Rightarrow> Inl e
                  | Inr _ \<Rightarrow> urlsplit_rest lib sch nl url4))
         else urlsplit_rest lib sch [] url3)"

definition splitparams :: "string \<Rightarrow> string \<times> string" where
  "splitparams url =
     (if CHR ''/'' \<in> set url then
        (let r = length url - 1 - length (takeWhile (\<lambda>c. c \<noteq> CHR ''/'') (rev url));
             tail = drop r url
         in if CHR '';'' \<in> set tail
            then (let i = r + length (takeWhile (\<lambda>c. c \<noteq> CHR '';'') tail)
                  in (take i url, drop (i + 1) url))
            else (url, []))
      else (let i = length (takeWhile (\<lambda>c. c \<noteq> CHR '';'') url)
            in (take i url, drop (i + 1) url)))"

definition urlparse :: "pylib \<Rightarrow> string \<Rightarrow> pyerr + ParseResult" where
  "urlparse lib url =
     (case urlsplit lib url of
        Inl e \<Rightarrow> Inl e
      | Inr r \<Rightarrow>
          (let (url1, ps) = (if sr_scheme r \<in> set uses_params \<and> CHR '';'' \<in> set (sr_path r)
                             then splitparams (sr_path r) else (sr_path r, []))
           in Inr \<lparr>scheme = sr_scheme r, netloc = sr_netloc r, path = url1, params = ps,
                   query = sr_query r, fragment = sr_fragment r\<rparr>))"

subsection \<open>Percent-decoding\<close>

definition hexval :: "char \<Rightarrow> nat" where
  "hexval c = (if isdigit c then ord c - 48
               else if ord c \<le> 70 then ord c - 55
               else ord c - 87)"

definition unquote_item :: "string \<Rightarrow> string" where
  "unquote_item item =
     (case item of
        a # b # rest \<Rightarrow>
          (if is_hexdig a \<and> is_hexdig b then char_of (16 * hexval a + hexval b) # rest
           else CHR ''%'' # item)
      | _ \<Rightarrow> CHR ''%'' # item)"

definition unquote_to_bytes :: "string \<Rightarrow> string" where
  "unquote_to_bytes s =
     (case split_chr (CHR ''%'') s of
        [] \<Rightarrow> []
      | b0 # bits \<Rightarrow> b0 @ concat (map unquote_item bits))"

text \<open>
  \<open>bytes.decode('utf-8', 'replace')\<close>, written back as UTF-8: a well-formed sequence is
  kept, an ill-formed one gives U+FFFD once for its longest well-formed start (one byte
  at least), and the decoder goes on behind it.
\<close>

definition REPLACEMENT :: string where
  "REPLACEMENT = [char_of (0xEF::nat), char_of (0xBF::nat), char_of (0xBD::nat)]"

definition is_cont :: "char \<Rightarrow> bool" where
  "is_cont c = (0x80 \<le> ord c \<and> ord c \<le> 0xBF)"

text \<open>The second byte of a three- or four-byte sequence, after the lead byte \<open>ch\<close>.\<close>

definition second_ok :: "nat \<Rightarrow> char \<Rightarrow> bool" where
  "second_ok ch c2 =
     (is_cont c2
      \<and> \<not> (ch = 0xE0 \<and> ord c2 < 0xA0) \<and> \<not> (ch = 0xED \<and> 0xA0 \<le> ord c2)
      \<and> \<not> (ch = 0xF0 \<and> ord c2 < 0x90) \<and> \<not> (ch = 0xF4 \<and> 0x90 \<le> ord c2))"

fun utf8_decode_replace :: "string \<Rightarrow> string" where
  "utf8_decode_replace [] = []"
| "utf8_decode_replace (c # cs) =
     (let ch = ord c in
      if ch < 0x80 then c # utf8_decode_replace cs
      else if ch < 0xC2 \<or> 0xF5 \<le> ch then REPLACEMENT @ utf8_decode_replace cs
      else if ch < 0xE0 then
        (case cs of
           [] \<Rightarrow> REPLACEMENT
         | c2 # cs2 \<Rightarrow>
             if is_cont c2 then c # c2 # utf8_decode_replace cs2
             else REPLACEMENT @ utf8_decode_replace cs)
      else if ch < 0xF0 then
        (case cs of
           [] \<Rightarrow> REPLACEMENT
         | c2 # cs2 \<Rightarrow>
             if \<not> second_ok ch c2 then REPLACEMENT @ utf8_decode_replace cs
             else
               (case cs2 of
                  [] \<Rightarrow> REPLACEMENT
                | c3 # cs3 \<Rightarrow>
                    if is_cont c3 then c # c2 # c3 # utf8_decode_replace cs3
                    else REPLACEMENT @ utf8_decode_replace cs2))
      else
        (case cs of
           [] \<Rightarrow> REPLACEMENT
         | c2 # cs2 \<Rightarrow>
             if \<not> second_ok ch c2 then REPLACEMENT @ utf8_decode_replace cs
             else
               (case cs2 of
                  [] \<Rightarrow> REPLACEMENT
                | c3 # cs3 \<Rightarrow>
                    if \<not> is_cont c3 then REPLACEMENT @ utf8_decode_replace cs2
                    else
                      (case cs3 of
                         [] \<Rightarrow> REPLACEMENT
                       | c4 # cs4 \<Rightarrow>
                           if is_cont c4 then c # c2 # c3 # c4 # utf8_decode_replace cs4
                           else REPLACEMENT @ utf8_decode_replace cs3))))"

text \<open>
  \<open>unquote\<close> decodes each maximal run of ASCII characters on its own and keeps what
  stands between the runs. \<open>run\<close> is the ASCII run read so far.
\<close>

fun unquote_runs :: "string \<Rightarrow> string \<Rightarrow> string" where
  "unquote_runs run [] = utf8_decode_replace (unquote_to_bytes run)"
| "unquote_runs run (c # cs) =
     (if isascii c then unquote_runs (run @ [c]) cs
      else utf8_decode_replace (unquote_to_bytes run) @ c # unquote_runs [] cs)"

definition unquote :: "string \<Rightarrow> string" where
  "unquote s = (if CHR ''%'' \<notin> set s then s else unquote_runs [] s)"

definition unquote_plus :: "string \<Rightarrow> string" where
  "unquote_plus s = unquote (replace_chr (CHR ''+'') (CHR '' '') s)"

subsection \<open>Query strings\<close>

text \<open>One field of the query, in the loop of \<open>parse_qsl\<close>: the pair it appends, if any.\<close>

definition parse_field :: "string \<Rightarrow> (string \<times> string) list" where
  "parse_field name_value =
     (if name_value \<noteq> [] then
        (let (name, has_eq, val) = partition_chr (CHR ''='') name_value
         in if val \<noteq> [] then [(unquote_plus name, unquote_plus val)] else [])
      else [])"

definition parse_qsl :: "string \<Rightarrow> (string \<times> string) list" where
  "parse_qsl qs = (if qs = [] then [] else concat (map parse_field (split_chr (CHR ''&'') qs)))"

text \<open>
  A \<open>dict\<close> is an association list with one entry for each key, in the order the keys were
  first stored.
\<close>

type_synonym ('k, 'v) dict = "('k \<times> 'v) list"

definition dict_get :: "('k, 'v) dict \<Rightarrow> 'k \<Rightarrow> 'v \<Rightarrow> 'v" where
  "dict_get d k dflt = (case map_of d k of None \<Rightarrow> dflt | Some v \<Rightarrow> v)"

text \<open>The body of the loop of \<open>parse_qs\<close>.\<close>

fun parsed_result_add :: "(string, string list) dict \<Rightarrow> string \<times> string
    \<Rightarrow> (string, string list) dict" where
  "parsed_result_add [] (name, val) = [(name, [val])]"
| "parsed_result_add ((k, vs) # d) (name, val) =
     (if k = name then (k, vs @ [val]) # d
      else (k, vs) # parsed_result_add d (name, val))"

definition parse_qs :: "string \<Rightarrow> (string, string list) dict" where
  "parse_qs qs = foldl parsed_result_add [] (parse_qsl qs)"

section \<open>The configuration\<close>

text \<open>
  The document behind \<open>CONFIG_URL\<close>: an object from brand names to objects with the keys
  \<open>oauth_url\<close>, \<open>scheme\<close> and \<open>configs\<close>, the last one from country codes to objects
  with the keys \<open>locale\<close> and \<open>client_id\<close>. Any of the keys may be missing; where a
  key is there, its value has the type the shape gives it (a document with a value of
  another type is not modelled).
\<close>

record CountryConfig =
  cc_locale :: "string option"
  cc_client_id :: "string option"

record VendorConfig =
  vc_oauth_url :: "string option"
  vc_scheme :: "string option"
  vc_configs :: "(string, CountryConfig) dict option"

type_synonym Configs = "(string, VendorConfig) dict"

section \<open>What the program prints and shows\<close>

text \<open>
  A message is kept as the key of its template in \<open>STRINGS\<close> and the value formatted
  into it: \<open>t(key).format(arg)\<close>. An exception formats as its text, which for a
  \<open>KeyError\<close> is the representation of the missing key.
\<close>

datatype fmt_arg = Str string | Err pyerr | Data Configs

datatype message = Message string fmt_arg

datatype effect =
    Print message
  | PrintLine string
  | Critical string message

text \<open>
  How the process goes on after a call: with a value, by \<open>sys.exit\<close>, by an abort of
  Qt, or with an exception nobody caught.
\<close>

datatype 'a process = Value 'a | SysExit nat | Abort | Uncaught pyerr

text \<open>
  \<open>QMessageBox.critical\<close> builds a widget. Qt refuses to build one while no
  \<open>QApplication\<close> exists, and aborts the process (``Must construct a QApplication
  before a QWidget''); otherwise the dialog is shown and the call returns when the user
  closes it.
\<close>

definition QMessageBox_critical :: "bool \<Rightarrow> string \<Rightarrow> message \<Rightarrow> effect option" where
  "QMessageBox_critical qapp title msg = (if qapp then Some (Critical title msg) else None)"

section \<open>Reading the configuration\<close>

text \<open>\<open>d[k]\<close> on a dict, and on an object with optional keys.\<close>

definition getitem :: "(string, 'v) dict \<Rightarrow> string \<Rightarrow> pyerr + 'v" where
  "getitem d k = (case map_of d k of None \<Rightarrow> Inl (KeyError k) | Some v \<Rightarrow> Inr v)"

definition getkey :: "string \<Rightarrow> 'v option \<Rightarrow> pyerr + 'v" where
  "getkey k v = (case v of None \<Rightarrow> Inl (KeyError k) | Some x \<Rightarrow> Inr x)"

text \<open>
  \<open>download_configs\<close>. \<open>fetched\<close> is what the body of the \<open>with\<close> statement comes to:
  the parsed document, or the exception of \<open>urlopen\<close>, \<open>read\<close>, \<open>decode\<close> or
  \<open>json.loads\<close>. \<open>qapp\<close> tells whether a \<open>QApplication\<close> exists.
\<close>

definition download_configs :: "bool \<Rightarrow> bool \<Rightarrow> pyerr + Configs
    \<Rightarrow> effect list \<times> Configs process" where
  "download_configs qapp DEBUG fetched =
     (case fetched of
        Inr data \<Rightarrow>
          ((if DEBUG then [Print (Message ''CONFIGS_DOWNLOADED'' (Data data))] else []),
           Value data)
      | Inl e \<Rightarrow>
          (case QMessageBox_critical qapp ''ERROR_TITLE'' (Message ''ERROR_MESSAGE'' (Err e)) of
             None \<Rightarrow> ([Print (Message ''CONFIGS_ERROR'' (Err e))], Abort)
           | Some dialog \<Rightarrow> ([Print (Message ''CONFIGS_ERROR'' (Err e)), dialog], SysExit 1)))"

section \<open>The widgets\<close>

record QComboBox =
  items :: "string list"
  currentIndex :: int

definition QComboBox_init :: QComboBox where
  "QComboBox_init = \<lparr>items = [], currentIndex = - 1\<rparr>"

definition clear :: "QComboBox \<Rightarrow> QComboBox" where
  "clear c = \<lparr>items = [], currentIndex = - 1\<rparr>"

text \<open>Items added to an empty box make the first of them the current one.\<close>

definition addItems :: "string list \<Rightarrow> QComboBox \<Rightarrow> QComboBox" where
  "addItems xs c =
     \<lparr>items = items c @ xs,
      currentIndex = (if items c = [] \<and> xs \<noteq> [] then 0 else currentIndex c)\<rparr>"

definition setCurrentIndex :: "int \<Rightarrow> QComboBox \<Rightarrow> QComboBox" where
  "setCurrentIndex i c =
     c\<lparr>currentIndex := (if 0 \<le> i \<and> i < int (length (items c)) then i else - 1)\<rparr>"

definition currentText :: "QComboBox \<Rightarrow> string" where
  "currentText c =
     (if 0 \<le> currentIndex c \<and> currentIndex c < int (length (items c))
      then items c ! nat (currentIndex c) else [])"

record OAuthPopup =
  popup_code :: string
  popup_visible :: bool

record OAuthBrowser =
  page_scheme :: string
  webview_url :: string
  popup :: "OAuthPopup option"
  browser_visible :: bool

record BrandCountrySelector =
  configs :: Configs
  valid_brands :: "string list"
  brand_combo :: QComboBox
  country_combo :: QComboBox
  browser_window :: "OAuthBrowser option"
  selector_visible :: bool

section \<open>The result popup and the browser window\<close>

definition OAuthPopup_init :: "string \<Rightarrow> OAuthPopup" where
  "OAuthPopup_init code = \<lparr>popup_code = code, popup_visible = False\<rparr>"

definition OAuthBrowser_init :: "string \<Rightarrow> string \<Rightarrow> OAuthBrowser" where
  "OAuthBrowser_init auth_url sch =
     \<lparr>page_scheme = sch, webview_url = auth_url, popup = None, browser_visible = False\<rparr>"

definition show_oauth_popup :: "OAuthBrowser \<Rightarrow> string \<Rightarrow> OAuthBrowser" where
  "show_oauth_popup self code =
     self\<lparr>popup := Some ((OAuthPopup_init code)\<lparr>popup_visible := True\<rparr>),
          browser_visible := False\<rparr>"

section \<open>The redirect interceptor\<close>

datatype nav_type =
    NavigationTypeLinkClicked
  | NavigationTypeTyped
  | NavigationTypeFormSubmitted
  | NavigationTypeBackForward
  | NavigationTypeReload
  | NavigationTypeOther
  | NavigationTypeRedirect

text \<open>The method of \<open>QWebEnginePage\<close> that \<open>CustomWebPage\<close> overrides accepts every request.\<close>

definition QWebEnginePage_acceptNavigationRequest :: "string \<Rightarrow> nav_type \<Rightarrow> bool \<Rightarrow> bool" where
  "QWebEnginePage_acceptNavigationRequest u nt mf = True"

text \<open>
  \<open>CustomWebPage.acceptNavigationRequest\<close>. \<open>url_str\<close> is \<open>url.toString()\<close>; the page's
  scheme is kept with the window that owns the page, the \<open>OAuthBrowser\<close> that
  \<open>self.view().parent()\<close> is. The result is what was printed, the answer to Qt
  (\<open>False\<close> refuses the navigation) and the window afterwards.
\<close>

definition acceptNavigationRequest :: "pylib \<Rightarrow> bool \<Rightarrow> OAuthBrowser \<Rightarrow> string \<Rightarrow> nav_type \<Rightarrow> bool
    \<Rightarrow> pyerr + (effect list \<times> bool \<times> OAuthBrowser)" where
  "acceptNavigationRequest lib DEBUG self url_str nav_type is_main_frame =
     (if startswith url_str (page_scheme self @ ''://'') then
        (case urlparse lib url_str of
           Inl e \<Rightarrow> Inl e
         | Inr parsed \<Rightarrow>
             (case dict_get (parse_qs (query parsed)) ''code'' [''''] of
                [] \<Rightarrow> Inl IndexError
              | code # _ \<Rightarrow>
                  Inr ((if DEBUG
                        then [PrintLine (replicate 20 (CHR ''='')),
                              Print (Message ''OAUTH_CODE_LABEL'' (Str code)),
                              PrintLine (replicate 20 (CHR ''=''))]
                        else []),
                       False, show_oauth_popup self code)))
      else Inr ([], QWebEnginePage_acceptNavigationRequest url_str nav_type is_main_frame, self))"

text \<open>
  The navigation requests of one run, in the order Qt hands them to the page: the codes
  handed to \<open>show_oauth_popup\<close>, one for each refused request, and the window after the
  last request. An exception ends the run.
\<close>

fun navigation_requests :: "pylib \<Rightarrow> bool \<Rightarrow> OAuthBrowser \<Rightarrow> (string \<times> nav_type \<times> bool) list
    \<Rightarrow> pyerr + (string list \<times> OAuthBrowser)" where
  "navigation_requests lib DEBUG w [] = Inr ([], w)"
| "navigation_requests lib DEBUG w ((u, nt, mf) # rs) =
     (case acceptNavigationRequest lib DEBUG w u nt mf of
        Inl e \<Rightarrow> Inl e
      | Inr (out, answer, w') \<Rightarrow>
          (case navigation_requests lib DEBUG w' rs of
             Inl e \<Rightarrow> Inl e
           | Inr (codes, w'') \<Rightarrow>
               Inr ((if answer then []
                     else (case popup w' of None \<Rightarrow> [] | Some pp \<Rightarrow> [popup_code pp])) @ codes,
                    w'')))"

section \<open>The selector screen\<close>

definition update_countries :: "BrandCountrySelector \<Rightarrow> string
    \<Rightarrow> pyerr + (effect list \<times> BrandCountrySelector)" where
  "update_countries self brand_name =
     (let self1 = self\<lparr>country_combo := clear (country_combo self)\<rparr>
      in case (case getitem (configs self1) brand_name of
                 Inl e \<Rightarrow> Inl e
               | Inr cfg \<Rightarrow> getkey ''configs'' (vc_configs cfg)) of
           Inr countries \<Rightarrow>
             Inr ([], self1\<lparr>country_combo :=
                        setCurrentIndex 0 (addItems (sort (map fst countries))
                                             (country_combo self1))\<rparr>)
         | Inl (KeyError k) \<Rightarrow>
             Inr ([Print (Message ''NO_COUNTRIES_FOR_BRAND'' (Str brand_name))],
                  self1\<lparr>country_combo := clear (country_combo self1)\<rparr>)
         | Inl e \<Rightarrow> Inl e)"

text \<open>
  \<open>[b for b in configs if "configs" in configs[b]]\<close>; \<open>b\<close> is a key of \<open>configs\<close>, so
  \<open>configs[b]\<close> is there.
\<close>

definition valid_brands_of :: "Configs \<Rightarrow> string list" where
  "valid_brands_of cfgs =
     filter (\<lambda>b. case map_of cfgs b of None \<Rightarrow> False | Some cfg \<Rightarrow> vc_configs cfg \<noteq> None)
       (map fst cfgs)"

definition BrandCountrySelector_init :: "Configs
    \<Rightarrow> pyerr + (effect list \<times> BrandCountrySelector)" where
  "BrandCountrySelector_init cfgs =
     (let self = \<lparr>configs = cfgs,
                  valid_brands = valid_brands_of cfgs,
                  brand_combo = addItems (valid_brands_of cfgs) QComboBox_init,
                  country_combo = QComboBox_init,
                  browser_window = None,
                  selector_visible = False\<rparr>
      in update_countries self (currentText (brand_combo self)))"

text \<open>The body of the \<open>try\<close> of \<open>launch_browser\<close>, up to \<open>auth_url\<close>.\<close>

definition launch_browser_try :: "pylib \<Rightarrow> Configs \<Rightarrow> string \<Rightarrow> string
    \<Rightarrow> pyerr + (string \<times> string)" where
  "launch_browser_try lib cfgs brand country =
     (case getitem cfgs brand of Inl e \<Rightarrow> Inl e | Inr cfg \<Rightarrow>
     (case getkey ''configs'' (vc_configs cfg) of Inl e \<Rightarrow> Inl e | Inr countries \<Rightarrow>
     (case getitem countries country of Inl e \<Rightarrow> Inl e | Inr country_cfg \<Rightarrow>
     (case getkey ''oauth_url'' (vc_oauth_url cfg) of Inl e \<Rightarrow> Inl e | Inr oauth_url \<Rightarrow>
     (case getkey ''scheme'' (vc_scheme cfg) of Inl e \<Rightarrow> Inl e | Inr sch \<Rightarrow>
     (case getkey ''locale'' (cc_locale country_cfg) of Inl e \<Rightarrow> Inl e | Inr locale_code \<Rightarrow>
     (case getkey ''client_id'' (cc_client_id country_cfg) of Inl e \<Rightarrow> Inl e | Inr client_id \<Rightarrow>
        Inr (oauth_url @ ''/am/oauth2/authorize?client_id='' @ client_id
             @ ''&response_type=code''
             @ ''&redirect_uri='' @ sch @ ''://oauth2redirect/''
             @ str_lower lib country
             @ ''&scope=openid%20profile%20email&locale='' @ locale_code,
             sch))))))))"

definition launch_browser :: "pylib \<Rightarrow> bool \<Rightarrow> BrandCountrySelector
    \<Rightarrow> pyerr + (effect list \<times> BrandCountrySelector)" where
  "launch_browser lib DEBUG self =
     (let brand = currentText (brand_combo self);
          country = currentText (country_combo self)
      in case launch_browser_try lib (configs self) brand country of
           Inr (auth_url, sch) \<Rightarrow>
             Inr ((if DEBUG then [Print (Message ''AUTH_URL_LOG'' (Str auth_url))] else []),
                  self\<lparr>browser_window :=
                         Some ((OAuthBrowser_init auth_url sch)\<lparr>browser_visible := True\<rparr>),
                       selector_visible := False\<rparr>)
         | Inl (KeyError k) \<Rightarrow>
             Inr ([Print (Message ''MISSING_KEY_LOG'' (Err (KeyError k))),
                   Critical ''MISSING_KEY_TITLE''
                     (Message ''MISSING_KEY_MESSAGE'' (Err (KeyError k)))],
                  self)
         | Inl e \<Rightarrow> Inl e)"

section \<open>The program\<close>

text \<open>
  The main block, in its order: \<open>download_configs()\<close> first, then
  \<open>QApplication(sys.argv)\<close>, then the selector, built and shown. (The font scaling
  between them changes no value used here.)
\<close>

definition main :: "bool \<Rightarrow> pyerr + Configs
    \<Rightarrow> effect list \<times> BrandCountrySelector process" where
  "main DEBUG fetched =
     (case download_configs False DEBUG fetched of
        (out, Value cfgs) \<Rightarrow>
          (case BrandCountrySelector_init cfgs of
             Inl e \<Rightarrow> (out, Uncaught e)
           | Inr (out2, selector) \<Rightarrow> (out @ out2, Value (selector\<lparr>selector_visible := True\<rparr>)))
      | (out, SysExit n) \<Rightarrow> (out, SysExit n)
      | (out, Abort) \<Rightarrow> (out, Abort)
      | (out, Uncaught e) \<Rightarrow> (out, Uncaught e))"

section \<open>The notions of the specification, and examples\<close>

text \<open>
  The first value of a parameter among the pairs of a query, the empty string when the
  parameter is absent.
\<close>

definition first_value :: "string \<Rightarrow> (string \<times> string) list \<Rightarrow> string" where
  "first_value name pairs =
     (case filter (\<lambda>(n, v). n = name) pairs of [] \<Rightarrow> [] | (n, v) # _ \<Rightarrow> v)"

text \<open>The name of a field \<open>name=value\<close> of a query, decoded, and its value as written.\<close>

definition field_name :: "string \<Rightarrow> string" where
  "field_name f = unquote_plus (fst (partition_chr (CHR ''='') f))"

definition field_value :: "string \<Rightarrow> string" where
  "field_value f = snd (snd (partition_chr (CHR ''='') f))"

text \<open>The country codes of a brand: the keys of its \<open>configs\<close>, none when there is no such key.\<close>

definition country_codes :: "Configs \<Rightarrow> string \<Rightarrow> string list" where
  "country_codes cfgs brand =
     (case map_of cfgs brand of
        None \<Rightarrow> []
      | Some cfg \<Rightarrow> (case vc_configs cfg of None \<Rightarrow> [] | Some countries \<Rightarrow> map fst countries))"

text \<open>
  \<open>k\<close> is an expected key that the configuration lacks for the brand and the country: the
  brand entry, \<open>configs\<close>, the country entry, \<open>oauth_url\<close>, \<open>scheme\<close>, \<open>locale\<close> or
  \<open>client_id\<close>.
\<close>

definition expected_key_absent :: "Configs \<Rightarrow> string \<Rightarrow> string \<Rightarrow> string \<Rightarrow> bool" where
  "expected_key_absent cfgs brand country k =
     (case map_of cfgs brand of
        None \<Rightarrow> k = brand
      | Some cfg \<Rightarrow>
          (k = ''configs'' \<and> vc_configs cfg = None)
          \<or> (k = ''oauth_url'' \<and> vc_oauth_url cfg = None)
          \<or> (k = ''scheme'' \<and> vc_scheme cfg = None)
          \<or> (case vc_configs cfg of
                None \<Rightarrow> False
              | Some countries \<Rightarrow>
                  (case map_of countries country of
                     None \<Rightarrow> k = country
                   | Some country_cfg \<Rightarrow>
                       (k = ''locale'' \<and> cc_locale country_cfg = None)
                       \<or> (k = ''client_id'' \<and> cc_client_id country_cfg = None))))"

text \<open>
  A library for the examples. Its NFKC normal form is the one of \<open>unicodedata\<close> on
  the strings whose only character outside ASCII is U+2100 (ACCOUNT OF, the bytes
  E2 84 80), which it replaces by \<open>a/c\<close>; its \<open>str.lower\<close> is the one of Python on
  the strings of ASCII characters; its address parser knows no address, and no URL of
  the examples reaches it.
\<close>

definition ACCOUNT_OF :: string where
  "ACCOUNT_OF = [char_of (0xE2::nat), char_of (0x84::nat), char_of (0x80::nat)]"

fun nfkc_account_of :: "string \<Rightarrow> string" where
  "nfkc_account_of (a # b # c # cs) =
     (if [a, b, c] = ACCOUNT_OF then ''a/c'' @ nfkc_account_of cs
      else a # nfkc_account_of (b # c # cs))"
| "nfkc_account_of cs = cs"

definition example_lib :: pylib where
  "example_lib =
     \<lparr>ip_address = (\<lambda>h. Inl (ValueError h)),
      nfkc_normalize = nfkc_account_of,
      str_lower = ascii_lower\<rparr>"

text \<open>
  A URL as \<open>url.toString()\<close> renders it when the page is sent to
  \<open>stellantis://%E2%84%80@oauth2redirect/fr?code=ABC123&state=xyz\<close>: the user name
  is the character U+2100, decoded.
\<close>

definition account_of_url :: string where
  "account_of_url =
     ''stellantis://'' @ ACCOUNT_OF @ ''@oauth2redirect/fr?code=ABC123&state=xyz''"

definition example_browser :: OAuthBrowser where
  "example_browser =
     (OAuthBrowser_init ''https://idp.example/am/oauth2/authorize'' ''stellantis'')
       \<lparr>browser_visible := True\<rparr>"

definition example_requests :: "(string \<times> nav_type \<times> bool) list" where
  "example_requests =
     [(''https://idp.example/login'', NavigationTypeFormSubmitted, True),
      (''stellantis://oauth2redirect/fr?code=ABC123&state=xyz'', NavigationTypeRedirect, True),
      (''stellantis://oauth2redirect/fr?code=DEF456&state=xyz'', NavigationTypeRedirect, True)]"

definition example_configs :: Configs where
  "example_configs =
     [(''Peugeot'',
       \<lparr>vc_oauth_url = Some ''https://idpcvs.peugeot.com'', vc_scheme = Some ''mymap'',
        vc_configs = Some
          [(''GB'', \<lparr>cc_locale = Some ''en-GB'', cc_client_id = Some ''id-gb''\<rparr>),
           (''FR'', \<lparr>cc_locale = Some ''fr-FR'', cc_client_id = Some ''id-fr''\<rparr>)]\<rparr>),
      (''Fiat'',
       \<lparr>vc_oauth_url = Some ''https://idp.fiat.example'', vc_scheme = Some ''fiat'',
        vc_configs = None\<rparr>)]"

definition example_selector :: BrandCountrySelector where
  "example_selector =
     \<lparr>configs = example_configs, valid_brands = [''Peugeot''],
      brand_combo = \<lparr>items = [''Peugeot''], currentIndex = 0\<rparr>,
      country_combo = \<lparr>items = [''FR'', ''GB''], currentIndex = 0\<rparr>,
      browser_window = None, selector_visible = True\<rparr>"

text \<open>A brand whose \<open>configs\<close> is there and empty.\<close>

definition empty_brand_configs :: Configs where
  "empty_brand_configs =
     [(''Opel'',
       \<lparr>vc_oauth_url = Some ''https://idpcvs.opel.com'', vc_scheme = Some ''mymop'',
        vc_configs = Some []\<rparr>)]"

text \<open>A brand without \<open>scheme\<close>, whose only country has no \<open>client_id\<close>.\<close>

definition incomplete_configs :: Configs where
  "incomplete_configs =
     [(''Opel'',
       \<lparr>vc_oauth_url = Some ''https://idpcvs.opel.com'', vc_scheme = None,
        vc_configs = Some
          [(''DE'', \<lparr>cc_locale = Some ''de-DE'', cc_client_id = None\<rparr>)]\<rparr>)]"

definition incomplete_selector :: BrandCountrySelector where
  "incomplete_selector =
     \<lparr>configs = incomplete_configs, valid_brands = [''Opel''],
      brand_combo = \<lparr>items = [''Opel''], currentIndex = 0\<rparr>,
      country_combo = \<lparr>items = [''DE''], currentIndex = 0\<rparr>,
      browser_window = None, selector_visible = True\<rparr>"

section \<open>The query parameters\<close>

lemma map_of_parsed_result_add:
  "map_of (parsed_result_add d (n, v)) k =
     (if k = n then Some (case map_of d n of None \<Rightarrow> [v] | Some vs \<Rightarrow> vs @ [v])
      else map_of d k)"
  by (induction d) auto

text \<open>The loop of \<open>parse_qs\<close> keeps, for each name, its values in the order of the query.\<close>

lemma map_of_foldl_parsed_result_add:
  "map_of (foldl parsed_result_add d pairs) k =
     (case map_of d k of
        None \<Rightarrow> (case map snd (filter (\<lambda>(n, v). n = k) pairs) of [] \<Rightarrow> None | vs \<Rightarrow> Some vs)
      | Some vs0 \<Rightarrow> Some (vs0 @ map snd (filter (\<lambda>(n, v). n = k) pairs)))"
proof (induction pairs arbitrary: d)
  case Nil
  then show ?case by (simp split: option.splits)
next
  case (Cons p pairs)
  obtain n v where p: "p = (n, v)" by (cases p)
  show ?case
    by (simp add: p Cons.IH map_of_parsed_result_add split: option.splits list.splits)
qed

lemma dict_get_parse_qs:
  "dict_get (parse_qs qs) k [dflt] =
     (case map snd (filter (\<lambda>(n, v). n = k) (parse_qsl qs)) of [] \<Rightarrow> [dflt] | vs \<Rightarrow> vs)"
  by (simp add: dict_get_def parse_qs_def map_of_foldl_parsed_result_add split: list.splits)

text \<open>So \<open>params.get("code", [""])\<close> is never empty, and \<open>[0]\<close> never raises.\<close>

lemma code_of_parse_qs:
  "dict_get (parse_qs qs) ''code'' [''''] = [first_value ''code'' (parse_qsl qs)]
   \<or> (\<exists>vs. dict_get (parse_qs qs) ''code'' [''''] = first_value ''code'' (parse_qsl qs) # vs)"
  by (auto simp add: dict_get_parse_qs first_value_def split: list.splits)

lemma parse_field_name_value:
  assumes "(n, v) \<in> set (parse_field f)"
  shows "n = field_name f \<and> field_value f \<noteq> []"
  using assms
  by (auto simp add: parse_field_def field_name_def field_value_def partition_chr_def Let_def
      split: if_splits)

lemma parse_qsl_name_value:
  assumes "(n, v) \<in> set (parse_qsl qs)"
  shows "\<exists>f \<in> set (split_chr (CHR ''&'') qs). n = field_name f \<and> field_value f \<noteq> []"
  using assms parse_field_name_value
  by (fastforce simp add: parse_qsl_def split: if_splits)

section \<open>The redirect interceptor\<close>

lemma accept_match:
  assumes "startswith u (page_scheme w @ ''://'')" and "urlparse lib u = Inr p"
  shows "acceptNavigationRequest lib DEBUG w u nt mf =
     Inr ((if DEBUG
           then [PrintLine (replicate 20 (CHR ''='')),
                 Print (Message ''OAUTH_CODE_LABEL''
                          (Str (first_value ''code'' (parse_qsl (query p))))),
                 PrintLine (replicate 20 (CHR ''=''))]
           else []),
          False, show_oauth_popup w (first_value ''code'' (parse_qsl (query p))))"
  using assms code_of_parse_qs [of "query p"]
  by (auto simp add: acceptNavigationRequest_def)

lemma accept_error:
  assumes "startswith u (page_scheme w @ ''://'')" and "urlparse lib u = Inl e"
  shows "acceptNavigationRequest lib DEBUG w u nt mf = Inl e"
  using assms by (simp add: acceptNavigationRequest_def)

lemma accept_other:
  assumes "\<not> startswith u (page_scheme w @ ''://'')"
  shows "acceptNavigationRequest lib DEBUG w u nt mf =
     Inr ([], QWebEnginePage_acceptNavigationRequest u nt mf, w)"
  using assms by (simp add: acceptNavigationRequest_def)

lemma accept_cases:
  assumes "acceptNavigationRequest lib DEBUG w u nt mf = Inr (out, answer, w')"
  shows "(startswith u (page_scheme w @ ''://'') \<and> \<not> answer
            \<and> (\<exists>code. w' = show_oauth_popup w code))
         \<or> (\<not> startswith u (page_scheme w @ ''://'') \<and> answer \<and> w' = w)"
proof (cases "startswith u (page_scheme w @ ''://'')")
  case True
  with assms obtain p where "urlparse lib u = Inr p"
    by (cases "urlparse lib u") (auto simp add: accept_error)
  with True assms show ?thesis by (auto simp add: accept_match)
next
  case False
  with assms show ?thesis
    by (auto simp add: accept_other QWebEnginePage_acceptNavigationRequest_def)
qed

lemma example_prefix:
  "startswith ''stellantis://oauth2redirect/fr?code=ABC123&state=xyz''
     (page_scheme example_browser @ ''://'')"
  by code_simp

lemma example_urlparse:
  "urlparse example_lib ''stellantis://oauth2redirect/fr?code=ABC123&state=xyz''
     = Inr \<lparr>scheme = ''stellantis'', netloc = ''oauth2redirect'', path = ''/fr'', params = [],
             query = ''code=ABC123&state=xyz'', fragment = []\<rparr>"
  by code_simp

text \<open>
  Apart from the exceptions of \<open>urlparse\<close>, the answer follows the prefix: \<open>False\<close>
  if and only if the URL starts with the scheme followed by \<open>://\<close> and \<open>urlparse\<close>
  returns; a URL without the prefix goes to the method of \<open>QWebEnginePage\<close> with the
  same arguments, and nothing else happens.
\<close>

lemma accept_veto_iff:
  "((\<exists>out w'. acceptNavigationRequest lib DEBUG w u nt mf = Inr (out, False, w'))
      \<longleftrightarrow> (startswith u (page_scheme w @ ''://'') \<and> (\<exists>p. urlparse lib u = Inr p)))
   \<and> (\<not> startswith u (page_scheme w @ ''://'') \<longrightarrow>
        acceptNavigationRequest lib DEBUG w u nt mf
          = Inr ([], QWebEnginePage_acceptNavigationRequest u nt mf, w))"
proof (cases "startswith u (page_scheme w @ ''://'')")
  case True
  show ?thesis
  proof (cases "urlparse lib u")
    case (Inl e)
    with True show ?thesis by (simp add: accept_error)
  next
    case (Inr p)
    with True show ?thesis by (simp add: accept_match)
  qed
next
  case False
  then show ?thesis
    by (simp add: accept_other QWebEnginePage_acceptNavigationRequest_def)
qed

text \<open>
  C1. The interceptor does not refuse every URL that starts with the prefix of the
  configured scheme. The URL \<open>account_of_url\<close> starts with \<open>stellantis://\<close>, the
  interceptor enters the branch that ends with \<open>return False\<close>, and \<open>urlparse\<close>,
  called there without a guard, raises \<open>ValueError\<close> on the authority: no answer is
  returned and no code is handed to the result popup.
\<close>

theorem interceptor_raises_on_nfkc_authority:
  "startswith account_of_url (page_scheme example_browser @ ''://'')
   \<and> acceptNavigationRequest example_lib False example_browser account_of_url
         NavigationTypeRedirect True
       = Inl (ValueError (''netloc '' @ [CHR 0x27] @ ACCOUNT_OF @ ''@oauth2redirect''
                @ [CHR 0x27] @ '' contains invalid characters under NFKC normalization''))"
  by code_simp

text \<open>
  C2. For every URL that starts with the prefix of the configured scheme (and that
  \<open>urlparse\<close> accepts), the interceptor refuses the navigation and hands to the result
  popup the first value of the query parameter \<open>code\<close>; when the query has no such
  parameter that value is the empty string, and the call succeeds all the same. The URL
  \<open>stellantis://oauth2redirect/fr?code=ABC123&state=xyz\<close> with the scheme
  \<open>stellantis\<close> gives \<open>ABC123\<close>: the witness below.
\<close>

theorem extracted_code_first_value:
  assumes "startswith u (page_scheme w @ ''://'')" and "urlparse lib u = Inr p"
  shows "(\<exists>out. acceptNavigationRequest lib DEBUG w u nt mf
            = Inr (out, False, show_oauth_popup w (first_value ''code'' (parse_qsl (query p)))))
         \<and> (''code'' \<notin> fst ` set (parse_qsl (query p))
              \<longrightarrow> first_value ''code'' (parse_qsl (query p)) = [])"
proof -
  have "filter (\<lambda>(n, v). n = ''code'') (parse_qsl (query p)) = []"
    if "''code'' \<notin> fst ` set (parse_qsl (query p))"
    using that by (auto simp add: filter_empty_conv image_iff)
  then show ?thesis
    using assms by (auto simp add: accept_match first_value_def)
qed

theorem extracted_code_first_value_witness:
  "startswith ''stellantis://oauth2redirect/fr?code=ABC123&state=xyz''
     (page_scheme example_browser @ ''://'')
   \<and> (\<exists>out. acceptNavigationRequest example_lib False example_browser
          ''stellantis://oauth2redirect/fr?code=ABC123&state=xyz'' NavigationTypeRedirect True
        = Inr (out, False, show_oauth_popup example_browser ''ABC123''))"
proof -
  have c: "first_value ''code'' (parse_qsl ''code=ABC123&state=xyz'') = ''ABC123''"
    by code_simp
  from extracted_code_first_value [OF example_prefix example_urlparse,
      of False NavigationTypeRedirect True] example_prefix c
  show ?thesis by simp
qed

text \<open>
  C9. For every URL that starts with the prefix (and that \<open>urlparse\<close> accepts), if every
  field of the query whose name is \<open>code\<close> has an empty value, the code handed to the
  result popup is the empty string: the same as when no field is named \<open>code\<close>, a case
  the hypothesis covers too, because \<open>parse_qs\<close> drops the fields with an empty value.
\<close>

theorem blank_code_is_dropped:
  assumes "startswith u (page_scheme w @ ''://'')" and "urlparse lib u = Inr p"
    and "\<forall>f \<in> set (split_chr (CHR ''&'') (query p)).
           field_name f = ''code'' \<longrightarrow> field_value f = []"
  shows "\<exists>out. acceptNavigationRequest lib DEBUG w u nt mf
           = Inr (out, False, show_oauth_popup w [])"
proof -
  have "filter (\<lambda>(n, v). n = ''code'') (parse_qsl (query p)) = []"
    using assms(3) parse_qsl_name_value [of _ _ "query p"]
    by (fastforce simp add: filter_empty_conv)
  then have "first_value ''code'' (parse_qsl (query p)) = []"
    by (simp add: first_value_def)
  with assms(1,2) show ?thesis
    by (simp add: accept_match)
qed

theorem blank_code_is_dropped_witness:
  "startswith ''stellantis://oauth2redirect/fr?code=&state=x''
     (page_scheme example_browser @ ''://'')
   \<and> split_chr (CHR ''&'') ''code=&state=x'' = [''code='', ''state=x'']
   \<and> field_name ''code='' = ''code'' \<and> field_value ''code='' = []
   \<and> field_name ''state=x'' = ''state''
   \<and> (\<exists>out. acceptNavigationRequest example_lib False example_browser
          ''stellantis://oauth2redirect/fr?code=&state=x'' NavigationTypeRedirect True
        = Inr (out, False, show_oauth_popup example_browser []))"
proof -
  have a: "startswith ''stellantis://oauth2redirect/fr?code=&state=x''
     (page_scheme example_browser @ ''://'')"
    by code_simp
  have b: "urlparse example_lib ''stellantis://oauth2redirect/fr?code=&state=x''
      = Inr \<lparr>scheme = ''stellantis'', netloc = ''oauth2redirect'', path = ''/fr'', params = [],
              query = ''code=&state=x'', fragment = []\<rparr>"
    by code_simp
  have s: "split_chr (CHR ''&'') ''code=&state=x'' = [''code='', ''state=x'']"
    by code_simp
  have n0: "field_name ''code='' = ''code''" by code_simp
  have n1: "field_value ''code='' = []" by code_simp
  have n2: "field_name ''state=x'' = ''state''" by code_simp
  have c: "\<forall>f \<in> set (split_chr (CHR ''&'') ''code=&state=x'').
         field_name f = ''code'' \<longrightarrow> field_value f = []"
    by (simp add: s n1 n2)
  from blank_code_is_dropped [OF a b, of False NavigationTypeRedirect True] c
  have "\<exists>out. acceptNavigationRequest example_lib False example_browser
          ''stellantis://oauth2redirect/fr?code=&state=x'' NavigationTypeRedirect True
        = Inr (out, False, show_oauth_popup example_browser [])"
    by simp
  with a s n0 n1 n2 show ?thesis by simp
qed

text \<open>
  C10. For a URL that starts with the prefix, what the interceptor does is the same for
  any two navigation types and for the main frame and a subframe: when \<open>urlparse\<close>
  accepts the URL, every such request is refused, whatever its type and frame, and the
  first value of \<open>code\<close> is handed to the result popup; when \<open>urlparse\<close> raises,
  every such request raises the same exception.
\<close>

theorem decision_ignores_nav_type_and_frame:
  assumes "startswith u (page_scheme w @ ''://'')"
  shows "acceptNavigationRequest lib DEBUG w u nt1 mf1
           = acceptNavigationRequest lib DEBUG w u nt2 mf2
         \<and> (\<forall>p. urlparse lib u = Inr p \<longrightarrow>
                acceptNavigationRequest lib DEBUG w u nt1 mf1
                  = Inr ((if DEBUG
                          then [PrintLine (replicate 20 (CHR ''='')),
                                Print (Message ''OAUTH_CODE_LABEL''
                                         (Str (first_value ''code'' (parse_qsl (query p))))),
                                PrintLine (replicate 20 (CHR ''=''))]
                          else []),
                         False,
                         show_oauth_popup w (first_value ''code'' (parse_qsl (query p)))))
         \<and> (\<forall>e. urlparse lib u = Inl e \<longrightarrow>
                acceptNavigationRequest lib DEBUG w u nt1 mf1 = Inl e)"
proof -
  have "acceptNavigationRequest lib DEBUG w u nt1 mf1
          = acceptNavigationRequest lib DEBUG w u nt2 mf2"
    using assms by (simp add: acceptNavigationRequest_def)
  with assms show ?thesis
    by (simp add: accept_match accept_error)
qed

theorem decision_ignores_nav_type_and_frame_witness:
  "startswith ''stellantis://oauth2redirect/fr?code=ABC123&state=xyz''
     (page_scheme example_browser @ ''://'')
   \<and> acceptNavigationRequest example_lib False example_browser
         ''stellantis://oauth2redirect/fr?code=ABC123&state=xyz'' NavigationTypeLinkClicked True
       = Inr ([], False, show_oauth_popup example_browser ''ABC123'')
   \<and> acceptNavigationRequest example_lib False example_browser
         ''stellantis://oauth2redirect/fr?code=ABC123&state=xyz'' NavigationTypeRedirect False
       = Inr ([], False, show_oauth_popup example_browser ''ABC123'')"
proof -
  have c: "first_value ''code'' (parse_qsl ''code=ABC123&state=xyz'') = ''ABC123''"
    by code_simp
  note t = decision_ignores_nav_type_and_frame
    [OF example_prefix,
      where lib = example_lib and DEBUG = False and ?nt1.0 = NavigationTypeLinkClicked
        and ?mf1.0 = True and ?nt2.0 = NavigationTypeRedirect and ?mf2.0 = False]
  note eq = t [THEN conjunct1]
  note val = t [THEN conjunct2, THEN conjunct1, rule_format, OF example_urlparse]
  from val c
  have a1: "acceptNavigationRequest example_lib False example_browser
         ''stellantis://oauth2redirect/fr?code=ABC123&state=xyz'' NavigationTypeLinkClicked True
       = Inr ([], False, show_oauth_popup example_browser ''ABC123'')"
    by simp
  note a2 = trans [OF eq [symmetric] a1]
  from example_prefix a1 a2 show ?thesis by simp
qed

lemma example_run:
  "navigation_requests example_lib False example_browser example_requests
     = Inr ([''ABC123'', ''DEF456''],
            example_browser\<lparr>popup := Some \<lparr>popup_code = ''DEF456'', popup_visible = True\<rparr>,
                            browser_visible := False\<rparr>)"
  by code_simp

text \<open>
  C3 (amended). The interceptor keeps no state between navigation requests. In a run
  that no exception ends, it hands one code to the result popup for each request whose
  URL starts with the prefix, so as many codes as there are such requests; with none,
  the window is unchanged; otherwise the window is hidden and its popup shows the code
  of the last such request.
\<close>

theorem interceptor_fires_on_every_match:
  "navigation_requests lib DEBUG w rs = Inr (codes, w') \<Longrightarrow>
     length codes = length (filter (\<lambda>(u, nt, mf). startswith u (page_scheme w @ ''://'')) rs)
     \<and> page_scheme w' = page_scheme w
     \<and> (codes = [] \<longrightarrow> w' = w)
     \<and> (codes \<noteq> [] \<longrightarrow>
          popup w' = Some \<lparr>popup_code = last codes, popup_visible = True\<rparr>
          \<and> \<not> browser_visible w')"
proof (induction rs arbitrary: w codes w')
  case Nil
  then show ?case by simp
next
  case (Cons r rs)
  obtain u nt mf where r: "r = (u, nt, mf)" by (cases r)
  from Cons.prems obtain out answer w1 codes1 where
    acc: "acceptNavigationRequest lib DEBUG w u nt mf = Inr (out, answer, w1)"
    and rest: "navigation_requests lib DEBUG w1 rs = Inr (codes1, w')"
    and codes: "codes = (if answer then []
                  else (case popup w1 of None \<Rightarrow> [] | Some pp \<Rightarrow> [popup_code pp])) @ codes1"
    by (auto simp add: r split: sum.splits prod.splits)
  note ih = Cons.IH [OF rest]
  from accept_cases [OF acc] show ?case
  proof
    assume m: "startswith u (page_scheme w @ ''://'') \<and> \<not> answer
                \<and> (\<exists>code. w1 = show_oauth_popup w code)"
    then obtain code where w1: "w1 = show_oauth_popup w code" by blast
    have sch: "page_scheme w1 = page_scheme w"
      by (simp add: w1 show_oauth_popup_def)
    have cs: "codes = code # codes1"
      using m codes by (simp add: w1 show_oauth_popup_def OAuthPopup_init_def)
    show ?thesis
    proof (cases "codes1 = []")
      case True
      with ih have "w' = w1" by simp
      with True m ih show ?thesis
        by (simp add: r cs sch w1 show_oauth_popup_def OAuthPopup_init_def)
    next
      case False
      with m ih show ?thesis
        by (simp add: r cs sch)
    qed
  next
    assume n: "\<not> startswith u (page_scheme w @ ''://'') \<and> answer \<and> w1 = w"
    with ih codes show ?thesis by (simp add: r)
  qed
qed

theorem interceptor_fires_on_every_match_witness:
  "navigation_requests example_lib False example_browser example_requests
     = Inr ([''ABC123'', ''DEF456''],
            example_browser\<lparr>popup := Some \<lparr>popup_code = ''DEF456'', popup_visible = True\<rparr>,
                            browser_visible := False\<rparr>)
   \<and> length [''ABC123'', ''DEF456'']
       = length (filter (\<lambda>(u, nt, mf). startswith u (page_scheme example_browser @ ''://''))
                   example_requests)"
  using interceptor_fires_on_every_match [OF example_run] example_run
  by simp

text \<open>
  The claim as it was written fails in a run with two requests to the custom scheme: both
  are captured, and the popup of the first is replaced by the popup of the second.
\<close>

theorem interceptor_fires_once_counterexample:
  "navigation_requests example_lib False example_browser
     [(''https://idp.example/login'', NavigationTypeFormSubmitted, True),
      (''stellantis://oauth2redirect/fr?code=ABC123&state=xyz'', NavigationTypeRedirect, True),
      (''stellantis://oauth2redirect/fr?code=DEF456&state=xyz'', NavigationTypeRedirect, True)]
     = Inr ([''ABC123'', ''DEF456''],
            example_browser\<lparr>popup := Some \<lparr>popup_code = ''DEF456'', popup_visible = True\<rparr>,
                            browser_visible := False\<rparr>)"
  using example_run by (simp add: example_requests_def)

section \<open>The selector screen\<close>

text \<open>The selectors of the examples are the ones the program builds.\<close>

lemma example_main:
  "main False (Inr example_configs) = ([], Value example_selector)"
  by code_simp

lemma incomplete_main:
  "main False (Inr incomplete_configs) = ([], Value incomplete_selector)"
  by code_simp

text \<open>\<open>update_countries\<close> never raises: the only exception of its body is a \<open>KeyError\<close>.\<close>

lemma update_countries_result:
  "update_countries self brand_name =
     Inr ((if map_of (configs self) brand_name = None
              \<or> (\<exists>cfg. map_of (configs self) brand_name = Some cfg \<and> vc_configs cfg = None)
           then [Print (Message ''NO_COUNTRIES_FOR_BRAND'' (Str brand_name))] else []),
          self\<lparr>country_combo :=
                 \<lparr>items = sort (country_codes (configs self) brand_name),
                  currentIndex =
                    (if country_codes (configs self) brand_name = [] then - 1 else 0)\<rparr>\<rparr>)"
  by (auto simp add: update_countries_def country_codes_def getitem_def getkey_def clear_def
      addItems_def setCurrentIndex_def Let_def split: option.splits)

lemma in_valid_brands_of:
  "b \<in> set (valid_brands_of cfgs)
     \<longleftrightarrow> (\<exists>cfg. map_of cfgs b = Some cfg \<and> vc_configs cfg \<noteq> None)"
  by (auto simp add: valid_brands_of_def split: option.splits dest: map_of_SomeD
      intro: rev_image_eqI)

lemma init_result:
  "\<exists>out self. BrandCountrySelector_init cfgs = Inr (out, self)
     \<and> configs self = cfgs
     \<and> items (brand_combo self) = valid_brands_of cfgs
     \<and> valid_brands self = valid_brands_of cfgs"
  by (simp add: BrandCountrySelector_init_def update_countries_result Let_def addItems_def
      QComboBox_init_def)

lemma launch_browser_try_cases:
  "(\<exists>k. expected_key_absent cfgs brand country k
        \<and> launch_browser_try lib cfgs brand country = Inl (KeyError k))
   \<or> (\<forall>k. \<not> expected_key_absent cfgs brand country k)"
  by (auto simp add: expected_key_absent_def launch_browser_try_def getitem_def getkey_def
      split: option.splits)

text \<open>
  C4. For every brand and country selected, whose entries and keys the configuration
  holds, \<open>launch_browser\<close> opens the browser window on exactly the URL of the template:
  the \<open>oauth_url\<close> of the brand, \<open>/am/oauth2/authorize?client_id=\<close>, the \<open>client_id\<close>
  of the pair, \<open>&response_type=code&redirect_uri=\<close>, the \<open>scheme\<close> of the brand,
  \<open>://oauth2redirect/\<close>, the country code in lower case (what \<open>str.lower\<close> gives),
  \<open>&scope=openid%20profile%20email&locale=\<close> and the \<open>locale\<close> of the pair; the
  page of the window watches for the scheme of the brand.
\<close>

theorem authorization_url_template:
  assumes "currentText (brand_combo self) = brand"
    and "currentText (country_combo self) = country"
    and "map_of (configs self) brand = Some cfg"
    and "vc_configs cfg = Some countries"
    and "map_of countries country = Some country_cfg"
    and "vc_oauth_url cfg = Some oauth_url"
    and "vc_scheme cfg = Some sch"
    and "cc_locale country_cfg = Some locale_code"
    and "cc_client_id country_cfg = Some client_id"
  shows "\<exists>out. launch_browser lib DEBUG self
           = Inr (out,
               self\<lparr>browser_window := Some
                      \<lparr>page_scheme = sch,
                       webview_url = oauth_url @ ''/am/oauth2/authorize?client_id='' @ client_id
                         @ ''&response_type=code&redirect_uri='' @ sch @ ''://oauth2redirect/''
                         @ str_lower lib country
                         @ ''&scope=openid%20profile%20email&locale=''
                         @ locale_code,
                       popup = None, browser_visible = True\<rparr>,
                    selector_visible := False\<rparr>)"
  using assms
  by (simp add: launch_browser_def launch_browser_try_def getitem_def getkey_def Let_def
      OAuthBrowser_init_def)

theorem authorization_url_template_witness:
  "currentText (brand_combo example_selector) = ''Peugeot''
   \<and> currentText (country_combo example_selector) = ''FR''
   \<and> (\<exists>out. launch_browser example_lib False example_selector
         = Inr (out,
             example_selector\<lparr>browser_window := Some
                 \<lparr>page_scheme = ''mymap'',
                  webview_url = ''https://idpcvs.peugeot.com/am/oauth2/authorize?client_id=id-fr&response_type=code&redirect_uri=mymap://oauth2redirect/fr&scope=openid%20profile%20email&locale=fr-FR'',
                  popup = None, browser_visible = True\<rparr>,
               selector_visible := False\<rparr>))"
proof -
  have b: "currentText (brand_combo example_selector) = ''Peugeot''" by code_simp
  have c: "currentText (country_combo example_selector) = ''FR''" by code_simp
  have m: "map_of (configs example_selector) ''Peugeot''
      = Some \<lparr>vc_oauth_url = Some ''https://idpcvs.peugeot.com'', vc_scheme = Some ''mymap'',
        vc_configs = Some
          [(''GB'', \<lparr>cc_locale = Some ''en-GB'', cc_client_id = Some ''id-gb''\<rparr>),
           (''FR'', \<lparr>cc_locale = Some ''fr-FR'', cc_client_id = Some ''id-fr''\<rparr>)]\<rparr>"
    by code_simp
  have n: "map_of [(''GB'', \<lparr>cc_locale = Some ''en-GB'', cc_client_id = Some ''id-gb''\<rparr>),
           (''FR'', \<lparr>cc_locale = Some ''fr-FR'', cc_client_id = Some ''id-fr''\<rparr>)] ''FR''
      = Some \<lparr>cc_locale = Some ''fr-FR'', cc_client_id = Some ''id-fr''\<rparr>"
    by code_simp
  have l: "str_lower example_lib ''FR'' = ''fr''" by code_simp
  from authorization_url_template
    [where self = example_selector and brand = "''Peugeot''" and country = "''FR''"
      and cfg = "\<lparr>vc_oauth_url = Some ''https://idpcvs.peugeot.com'',
                  vc_scheme = Some ''mymap'',
                  vc_configs = Some
                    [(''GB'', \<lparr>cc_locale = Some ''en-GB'', cc_client_id = Some ''id-gb''\<rparr>),
                     (''FR'', \<lparr>cc_locale = Some ''fr-FR'', cc_client_id = Some ''id-fr''\<rparr>)]\<rparr>"
      and countries =
        "[(''GB'', \<lparr>cc_locale = Some ''en-GB'', cc_client_id = Some ''id-gb''\<rparr>),
          (''FR'', \<lparr>cc_locale = Some ''fr-FR'', cc_client_id = Some ''id-fr''\<rparr>)]"
      and country_cfg = "\<lparr>cc_locale = Some ''fr-FR'', cc_client_id = Some ''id-fr''\<rparr>"
      and oauth_url = "''https://idpcvs.peugeot.com''" and sch = "''mymap''"
      and locale_code = "''fr-FR''" and client_id = "''id-fr''" and DEBUG = False
      and lib = example_lib]
    b c m n l
  show ?thesis by simp
qed

text \<open>
  C5 (amended). For every loaded configuration the selector is built without an
  exception, and a brand is in the list of the brand box if and only if its entry has
  the key \<open>configs\<close>, whatever that holds. So every brand with at least one country is
  in the list, and a brand without the key \<open>configs\<close> never is.
\<close>

theorem brand_selectable_iff_configs_key:
  "\<exists>out self. BrandCountrySelector_init cfgs = Inr (out, self)
     \<and> (\<forall>b. b \<in> set (items (brand_combo self))
              \<longleftrightarrow> (\<exists>cfg. map_of cfgs b = Some cfg \<and> vc_configs cfg \<noteq> None))
     \<and> (\<forall>b. country_codes cfgs b \<noteq> [] \<longrightarrow> b \<in> set (items (brand_combo self)))
     \<and> (\<forall>b. (\<forall>cfg. map_of cfgs b = Some cfg \<longrightarrow> vc_configs cfg = None)
              \<longrightarrow> b \<notin> set (items (brand_combo self)))"
proof -
  from init_result [of cfgs] obtain out self where
    i: "BrandCountrySelector_init cfgs = Inr (out, self)"
    and b: "items (brand_combo self) = valid_brands_of cfgs"
    by blast
  have "country_codes cfgs b \<noteq> [] \<Longrightarrow> b \<in> set (valid_brands_of cfgs)" for b
    by (auto simp add: in_valid_brands_of country_codes_def split: option.splits)
  with i b show ?thesis
    by (auto simp add: in_valid_brands_of)
qed

theorem brand_selectable_iff_configs_key_witness:
  "country_codes example_configs ''Peugeot'' \<noteq> []
   \<and> map_of example_configs ''Fiat''
       = Some \<lparr>vc_oauth_url = Some ''https://idp.fiat.example'', vc_scheme = Some ''fiat'',
                vc_configs = None\<rparr>
   \<and> (\<exists>out self. BrandCountrySelector_init example_configs = Inr (out, self)
         \<and> ''Peugeot'' \<in> set (items (brand_combo self))
         \<and> ''Fiat'' \<notin> set (items (brand_combo self)))"
proof -
  have p: "country_codes example_configs ''Peugeot'' \<noteq> []" by code_simp
  have m: "map_of example_configs ''Fiat''
      = Some \<lparr>vc_oauth_url = Some ''https://idp.fiat.example'', vc_scheme = Some ''fiat'',
               vc_configs = None\<rparr>"
    by code_simp
  then have f: "\<forall>cfg. map_of example_configs ''Fiat'' = Some cfg \<longrightarrow> vc_configs cfg = None"
    by auto
  from brand_selectable_iff_configs_key [of example_configs] p f m
  show ?thesis by blast
qed

text \<open>
  The claim as it was written fails for a brand whose \<open>configs\<close> is empty: it has no
  country and is in the list.
\<close>

theorem brand_selectable_counterexample:
  "country_codes empty_brand_configs ''Opel'' = []
   \<and> BrandCountrySelector_init empty_brand_configs
       = Inr ([],
           \<lparr>configs = empty_brand_configs, valid_brands = [''Opel''],
            brand_combo = \<lparr>items = [''Opel''], currentIndex = 0\<rparr>,
            country_combo = \<lparr>items = [], currentIndex = - 1\<rparr>,
            browser_window = None, selector_visible = False\<rparr>)"
  by code_simp

text \<open>
  C7. When the configuration lacks an expected key for the selected brand and country,
  \<open>launch_browser\<close> prints and shows, in a dialog, a message with the \<open>KeyError\<close> of
  such a key, and leaves the selector as it was: no browser window, the selector still
  open.
\<close>

theorem missing_key_reported:
  assumes "expected_key_absent (configs self) (currentText (brand_combo self))
             (currentText (country_combo self)) k0"
  shows "\<exists>k. expected_key_absent (configs self) (currentText (brand_combo self))
               (currentText (country_combo self)) k
           \<and> launch_browser lib DEBUG self
               = Inr ([Print (Message ''MISSING_KEY_LOG'' (Err (KeyError k))),
                       Critical ''MISSING_KEY_TITLE''
                         (Message ''MISSING_KEY_MESSAGE'' (Err (KeyError k)))],
                      self)"
  using assms launch_browser_try_cases [of "configs self" "currentText (brand_combo self)"
      "currentText (country_combo self)" lib]
  by (auto simp add: launch_browser_def Let_def)

theorem missing_key_reported_witness:
  "expected_key_absent (configs incomplete_selector)
     (currentText (brand_combo incomplete_selector))
     (currentText (country_combo incomplete_selector)) ''scheme''
   \<and> (\<exists>k. expected_key_absent (configs incomplete_selector)
             (currentText (brand_combo incomplete_selector))
             (currentText (country_combo incomplete_selector)) k
         \<and> launch_browser example_lib False incomplete_selector
             = Inr ([Print (Message ''MISSING_KEY_LOG'' (Err (KeyError k))),
                     Critical ''MISSING_KEY_TITLE''
                       (Message ''MISSING_KEY_MESSAGE'' (Err (KeyError k)))],
                    incomplete_selector))"
proof -
  have a: "expected_key_absent (configs incomplete_selector)
     (currentText (brand_combo incomplete_selector))
     (currentText (country_combo incomplete_selector)) ''scheme''"
    by code_simp
  from missing_key_reported [OF a, of example_lib False] a show ?thesis by blast
qed

text \<open>
  C8. For every brand name, \<open>update_countries\<close> leaves in the country box exactly the
  country codes of that brand, in sorted order (no code when the brand has no
  \<open>configs\<close>), whatever the box held before, and changes nothing else of the selector.
\<close>

theorem country_list_sorted_and_reset:
  "\<exists>out self'. update_countries self brand_name = Inr (out, self')
     \<and> items (country_combo self') = sort (country_codes (configs self) brand_name)
     \<and> sorted (items (country_combo self'))
     \<and> mset (items (country_combo self')) = mset (country_codes (configs self) brand_name)
     \<and> self' = self\<lparr>country_combo := country_combo self'\<rparr>
     \<and> update_countries (self\<lparr>country_combo := previous\<rparr>) brand_name = Inr (out, self')"
  by (simp add: update_countries_result)

theorem country_list_sorted_and_reset_witness:
  "\<exists>out self'.
     update_countries
       (example_selector\<lparr>country_combo := \<lparr>items = [''DE'', ''AT''], currentIndex = 1\<rparr>\<rparr>)
       ''Peugeot'' = Inr (out, self')
     \<and> items (country_combo self') = [''FR'', ''GB'']"
proof -
  have s: "sort (country_codes example_configs ''Peugeot'') = [''FR'', ''GB'']"
    by code_simp
  have c: "configs example_selector = example_configs"
    by (simp add: example_selector_def)
  from country_list_sorted_and_reset
    [where self =
        "example_selector\<lparr>country_combo := \<lparr>items = [''DE'', ''AT''], currentIndex = 1\<rparr>\<rparr>"
      and brand_name = "''Peugeot''" and previous = QComboBox_init] s c
  show ?thesis by auto
qed

section \<open>The download of the configuration\<close>

text \<open>With a \<open>QApplication\<close>, a failure is printed, shown in a dialog and ends the process.\<close>

lemma download_configs_with_application:
  "download_configs True DEBUG (Inl e)
     = ([Print (Message ''CONFIGS_ERROR'' (Err e)),
         Critical ''ERROR_TITLE'' (Message ''ERROR_MESSAGE'' (Err e))], SysExit 1)"
  by (simp add: download_configs_def QMessageBox_critical_def)

lemma download_configs_success:
  "snd (download_configs qapp DEBUG (Inr data)) = Value data"
  by (simp add: download_configs_def)

text \<open>
  C6. The program calls \<open>download_configs\<close> before it builds its \<open>QApplication\<close>. When
  the download or the parsing raises, the error is printed, and the dialog that should
  show it aborts the process: no dialog is seen and \<open>sys.exit(1)\<close> is not reached. No
  configuration is returned.
\<close>

theorem download_failure_before_application:
  "main DEBUG (Inl e) = ([Print (Message ''CONFIGS_ERROR'' (Err e))], Abort)"
  by (simp add: main_def download_configs_def QMessageBox_critical_def)

end
